theory Spec2Isabelle
  imports Complex_Main
begin

section \<open>TypeScript types\<close>

text \<open>
  The library \<open>types-echo\<close> is a module of generic type aliases. An alias is a function
  from types to a type, run by the type checker; here every alias is a HOL function on the
  datatype \<open>ty\<close> of closed, finite TypeScript types. The checker's options are those of
  \<open>strict\<close>: \<open>strictNullChecks\<close> on, \<open>exactOptionalPropertyTypes\<close> off.

  A property of an object type is \<open>(key, readonly, optional, type)\<close>; as in the checker, the
  type of an optional property is stored with its \<open>undefined\<close>, so \<open>{a?: string}\<close> is
  \<open>TObj [(''a'', False, True, TUnion [TString, TUndefined])]\<close>. \<open>boolean\<close> is the union
  \<open>false | true\<close>, as in TypeScript. A number literal type is a rational number: \<open>-1\<close> and
  \<open>1.5\<close> are literal types as \<open>3\<close> is. Left out: \<open>any\<close> (a deep transform of \<open>any\<close> is an
  index-signature type that refers to itself), intersections, index signatures, symbols,
  tuples (the counter of \<open>_NumbersFrom0ToNRec\<close> apart, which is a list) and the types of
  the members that \<open>lib.d.ts\<close> gives to primitives and arrays.
\<close>

datatype ty =
    TNever
  | TUnknown
  | TNull
  | TUndefined
  | TVoid
  | TString
  | TNumber
  | TStrLit string
  | TNumLit rat
  | TBoolLit bool
  | TObject
  | TFun "ty list" ty
  | TArray bool ty
  | TObj "(string \<times> bool \<times> bool \<times> ty) list"
  | TUnion "ty list"

abbreviation TBoolean :: ty where
  "TBoolean \<equiv> TUnion [TBoolLit False, TBoolLit True]"

subsection \<open>Unions\<close>

text \<open>The constituents of a type: a union's members, flattened; \<open>never\<close> is the empty union.\<close>

fun members :: "ty \<Rightarrow> ty list" where
  "members (TUnion ts) = concat (map members ts)"
| "members TNever = []"
| "members t = [t]"

text \<open>Literal reduction: a literal disappears from a union that has its primitive.\<close>

fun subsumed :: "ty list \<Rightarrow> ty \<Rightarrow> bool" where
  "subsumed ms (TStrLit s) = (TString \<in> set ms)"
| "subsumed ms (TNumLit n) = (TNumber \<in> set ms)"
| "subsumed ms t = False"

text \<open>
  \<open>A | B | ...\<close>: the members are flattened, a repeated member is kept once, \<open>unknown\<close>
  absorbs the rest, the empty union is \<open>never\<close> and a union of one member is that member.
\<close>

definition mk_union :: "ty list \<Rightarrow> ty" where
  "mk_union ts =
     (let ms = remdups (concat (map members ts)) in
      if TUnknown \<in> set ms then TUnknown
      else case filter (\<lambda>t. \<not> subsumed ms t) ms of
             [] \<Rightarrow> TNever
           | [t] \<Rightarrow> t
           | us \<Rightarrow> TUnion us)"

subsection \<open>Assignability: \<open>S extends T\<close>\<close>

text \<open>
  The type of a property, and a member of a list of types, are smaller than the type they
  stand in: the measure of the recursions below.
\<close>

lemma size_prop_lt:
  "(k, ro, opt, t) \<in> set ps \<Longrightarrow>
   size t < Suc (size_list (size_prod (\<lambda>_. 0) (size_prod (\<lambda>_. 0) (size_prod (\<lambda>_. 0) size))) ps)"
  by (induction ps) auto

lemma size_mem_lt: "t \<in> set ts \<Longrightarrow> size t < Suc (size_list size ts)"
  by (induction ts) auto

text \<open>
  The test of a conditional type, for a check type that is not distributed. Object types
  compare by structure (\<open>readonly\<close> plays no part), functions by parameter bivariance
  switched off (\<open>strictFunctionTypes\<close>). A target whose properties are all optional, and
  that has one at least, is a weak type: an object type with properties extends it only
  when they have a key in common. \<open>object\<close> has the properties of \<open>{}\<close>. The members that
  \<open>lib.d.ts\<close> gives to a primitive, a function or an array are not in the model, so these
  extend only the empty object type here.
\<close>

definition weak :: "(string \<times> bool \<times> bool \<times> ty) list \<Rightarrow> bool" where
  "weak qs = (qs \<noteq> [] \<and> list_all (\<lambda>(k, ro, opt, t). opt) qs)"

function extends :: "ty \<Rightarrow> ty \<Rightarrow> bool" where
  "extends S T =
     (case S of
        TNever \<Rightarrow> True
      | TUnion ss \<Rightarrow> list_all (\<lambda>s. extends s T) ss
      | _ \<Rightarrow>
        (case T of
           TUnknown \<Rightarrow> True
         | TUnion ts \<Rightarrow> list_ex (\<lambda>t. extends S t) ts
         | TNever \<Rightarrow> False
         | TVoid \<Rightarrow> S = TVoid \<or> S = TUndefined
         | TString \<Rightarrow> (case S of TString \<Rightarrow> True | TStrLit s \<Rightarrow> True | _ \<Rightarrow> False)
         | TNumber \<Rightarrow> (case S of TNumber \<Rightarrow> True | TNumLit n \<Rightarrow> True | _ \<Rightarrow> False)
         | TObject \<Rightarrow>
             (case S of TObject \<Rightarrow> True | TFun ps r \<Rightarrow> True | TArray ro s \<Rightarrow> True
              | TObj ps \<Rightarrow> True | _ \<Rightarrow> False)
         | TArray ro' t \<Rightarrow>
             (case S of TArray ro s \<Rightarrow> (ro \<longrightarrow> ro') \<and> extends s t | _ \<Rightarrow> False)
         | TFun qs r' \<Rightarrow>
             (case S of
                TFun ps r \<Rightarrow>
                  length ps \<le> length qs
                  \<and> list_all2 (\<lambda>p q. extends q p) ps (take (length ps) qs)
                  \<and> (r' = TVoid \<or> extends r r')
              | _ \<Rightarrow> False)
         | TObj qs \<Rightarrow>
             (case S of
                TObj ps \<Rightarrow>
                  (weak qs \<and> ps \<noteq> [] \<longrightarrow> list_ex (\<lambda>k. k \<in> set (map fst qs)) (map fst ps))
                  \<and> list_all (\<lambda>(k, ro', opt', t).
                      case map_of ps k of
                        None \<Rightarrow> opt'
                      | Some (ro, opt, s) \<Rightarrow> (opt \<longrightarrow> opt') \<and> extends s t) qs
              | TObject \<Rightarrow> list_all (\<lambda>(k, ro', opt', t). opt') qs
              | TUnknown \<Rightarrow> False | TNull \<Rightarrow> False | TUndefined \<Rightarrow> False | TVoid \<Rightarrow> False
              | _ \<Rightarrow> qs = [])
         | _ \<Rightarrow> S = T))"
  by pat_completeness auto
termination extends
  apply (relation "measure (\<lambda>(S, T). size S + size T)")
   apply (auto dest!: map_of_SomeD in_set_takeD)
   apply (auto dest!: size_mem_lt size_prop_lt)
  done

declare extends.simps [simp del]

text \<open>\<open>S extends any\<close>: every type is assignable to \<open>any\<close>.\<close>

definition extends_any :: "ty \<Rightarrow> bool" where
  "extends_any S = True"

subsection \<open>Distributive conditional types\<close>

text \<open>
  A conditional type whose check type is a bare type parameter is applied to each member of
  a union argument, and the results are united; applied to \<open>never\<close> it is \<open>never\<close>.
\<close>

definition distribute :: "(ty \<Rightarrow> ty) \<Rightarrow> ty \<Rightarrow> ty" where
  "distribute f T = mk_union (map f (members T))"

subsection \<open>Homomorphic mapped types\<close>

text \<open>
  \<open>{ readonly [P in keyof T]?: F<T[P]> }\<close>, with each modifier absent, added or removed
  (\<open>-readonly\<close>, \<open>-?\<close>). Such a type distributes over a union \<open>T\<close>, maps the element type
  of an array, leaves a primitive, \<open>null\<close>, \<open>undefined\<close>, \<open>void\<close>, \<open>never\<close> and \<open>object\<close>
  as they are, and has no property when \<open>T\<close> is a function type or \<open>unknown\<close>, whose
  \<open>keyof\<close> is \<open>never\<close>. A property that is optional in the result has \<open>undefined\<close> in its
  type; \<open>-?\<close> on a property that was optional takes \<open>undefined\<close> out of its type.
\<close>

datatype modifier = Same | Plus | Minus

fun new_flag :: "modifier \<Rightarrow> bool \<Rightarrow> bool" where
  "new_flag Same b = b"
| "new_flag Plus b = True"
| "new_flag Minus b = False"

text \<open>
  The type of a property that is optional has \<open>undefined\<close> as a member; \<open>-?\<close> on a property
  that was optional removes the members \<open>undefined\<close> and \<open>void\<close> (the checker keeps the
  members that can differ from \<open>undefined\<close>).
\<close>

definition add_optional :: "ty \<Rightarrow> ty" where
  "add_optional t = (if TUndefined \<in> set (members t) then t else mk_union [t, TUndefined])"

definition strip_undefined :: "ty \<Rightarrow> ty" where
  "strip_undefined t = mk_union (filter (\<lambda>m. m \<noteq> TUndefined \<and> m \<noteq> TVoid) (members t))"

definition prop_type :: "modifier \<Rightarrow> bool \<Rightarrow> ty \<Rightarrow> ty" where
  "prop_type om opt t =
     (if new_flag om opt then add_optional t
      else if om = Minus \<and> opt then strip_undefined t
      else t)"

fun elem_type :: "modifier \<Rightarrow> ty \<Rightarrow> ty" where
  "elem_type Plus t = add_optional t"
| "elem_type Minus t = strip_undefined t"
| "elem_type Same t = t"

text \<open>
  \<open>mapped rm om f T\<close>: \<open>rm\<close> is the \<open>readonly\<close> modifier, \<open>om\<close> the \<open>?\<close> modifier and
  \<open>f\<close> the template as a function of \<open>T[P]\<close>.
\<close>

fun mapped :: "modifier \<Rightarrow> modifier \<Rightarrow> (ty \<Rightarrow> ty) \<Rightarrow> ty \<Rightarrow> ty" where
  "mapped rm om f (TObj ps) =
     TObj (map (\<lambda>(k, ro, opt, t).
                  (k, new_flag rm ro, new_flag om opt, prop_type om opt (f t))) ps)"
| "mapped rm om f (TArray ro t) = TArray (new_flag rm ro) (elem_type om (f t))"
| "mapped rm om f (TUnion ts) = mk_union (map (mapped rm om f) ts)"
| "mapped rm om f (TFun ps r) = TObj []"
| "mapped rm om f TUnknown = TObj []"
| "mapped rm om f t = t"

text \<open>
  \<open>mapped\<close> applies its template only to types smaller than \<open>T\<close>, which is what lets an alias
  be defined by \<open>mapped\<close> applied to the alias itself.
\<close>

lemma mapped_cong [fundef_cong]:
  assumes "rm = rm'" "om = om'" "T = T'" "\<And>t. size t < size T' \<Longrightarrow> f t = g t"
  shows "mapped rm om f T = mapped rm' om' g T'"
  using assms(4) unfolding assms(1-3)
proof (induction T' rule: ty.induct)
  case (TObj ps)
  have "\<And>k ro opt t. (k, ro, opt, t) \<in> set ps \<Longrightarrow> f t = g t"
    using TObj.prems size_prop_lt by fastforce
  then show ?case by auto
next
  case (TUnion ts)
  have "\<And>t. t \<in> set ts \<Longrightarrow> mapped rm' om' f t = mapped rm' om' g t"
  proof -
    fix t assume t: "t \<in> set ts"
    have "\<And>u. size u < size t \<Longrightarrow> f u = g u"
      using TUnion.prems size_mem_lt [OF t] by simp
    with TUnion.IH t show "mapped rm' om' f t = mapped rm' om' g t" by blast
  qed
  then show ?case by (simp cong: map_cong)
qed simp_all

subsection \<open>Keys and indexed access\<close>

text \<open>
  The members of \<open>Array<T>\<close> and of \<open>ReadonlyArray<T>\<close> with a name, as \<open>lib.es5.d.ts\<close>
  declares them (a later library adds members to both, and the methods that change the
  array to \<open>Array<T>\<close> alone).
\<close>

definition readonly_array_keys :: "string list" where
  "readonly_array_keys =
     [''length'', ''toString'', ''toLocaleString'', ''concat'', ''join'', ''slice'',
      ''indexOf'', ''lastIndexOf'', ''every'', ''some'', ''forEach'', ''map'', ''filter'',
      ''reduce'', ''reduceRight'']"

definition array_keys :: "string list" where
  "array_keys =
     [''length'', ''toString'', ''toLocaleString'', ''pop'', ''push'', ''concat'', ''join'',
      ''reverse'', ''shift'', ''slice'', ''sort'', ''splice'', ''unshift'', ''indexOf'',
      ''lastIndexOf'', ''every'', ''some'', ''forEach'', ''map'', ''filter'', ''reduce'',
      ''reduceRight'']"

text \<open>
  \<open>keyof T\<close>, as the list of the string keys. An object type has the keys of its
  properties; an array those of \<open>Array\<close> or, when it is \<open>readonly\<close>, of \<open>ReadonlyArray\<close>
  (and \<open>number\<close>, which is no string key and the same for both); a function type,
  \<open>object\<close>, \<open>unknown\<close>, \<open>null\<close>, \<open>undefined\<close> and \<open>void\<close> have none (\<open>keyof\<close> is \<open>never\<close>).
  \<open>None\<close> where the keys are not a finite list of strings that this model knows:
  \<open>never\<close> (every key), the primitives (the members \<open>lib.d.ts\<close> declares) and unions.
\<close>

fun keyof :: "ty \<Rightarrow> string list option" where
  "keyof (TObj ps) = Some (map fst ps)"
| "keyof (TArray ro t) = Some (if ro then readonly_array_keys else array_keys)"
| "keyof (TFun ps r) = Some []"
| "keyof TObject = Some []"
| "keyof TUnknown = Some []"
| "keyof TNull = Some []"
| "keyof TUndefined = Some []"
| "keyof TVoid = Some []"
| "keyof t = None"

text \<open>The property \<open>K\<close> of an object type: its modifiers and its type.\<close>

fun property :: "ty \<Rightarrow> string \<Rightarrow> (bool \<times> bool \<times> ty) option" where
  "property (TObj ps) K = map_of ps K"
| "property T K = None"

text \<open>
  \<open>T[K]\<close> for a string key and an object type \<open>T\<close>. When an alias is instantiated and \<open>T\<close>
  has no property \<open>K\<close>, the checker gives \<open>unknown\<close>. The types of the members of an array
  or a primitive are not in the model, and \<open>T[K]\<close> is used for neither.
\<close>

fun index :: "ty \<Rightarrow> string \<Rightarrow> ty" where
  "index (TObj ps) K = (case map_of ps K of Some (ro, opt, t) \<Rightarrow> t | None \<Rightarrow> TUnknown)"
| "index T K = TUnknown"

section \<open>The aliases of the module\<close>

subsection \<open>Nullability wrappers\<close>

text \<open>
  \<open>Maybe<T> = T | null | undefined\<close>, \<open>NonNullable<T> = T extends null | undefined ? never : T\<close>,
  \<open>Nullable<T> = T | null\<close>, \<open>Undefinedable<T> = T | undefined\<close>,
  \<open>NullableOrUndefined<T> = T | null | undefined\<close>, \<open>Voidable<T> = T | void\<close>.
\<close>

definition Maybe :: "ty \<Rightarrow> ty" where
  "Maybe T = mk_union [T, TNull, TUndefined]"

definition NonNullable :: "ty \<Rightarrow> ty" where
  "NonNullable T =
     distribute (\<lambda>T. if extends T (TUnion [TNull, TUndefined]) then TNever else T) T"

definition Nullable :: "ty \<Rightarrow> ty" where
  "Nullable T = mk_union [T, TNull]"

definition Undefinedable :: "ty \<Rightarrow> ty" where
  "Undefinedable T = mk_union [T, TUndefined]"

definition NullableOrUndefined :: "ty \<Rightarrow> ty" where
  "NullableOrUndefined T = mk_union [T, TNull, TUndefined]"

definition Voidable :: "ty \<Rightarrow> ty" where
  "Voidable T = mk_union [T, TVoid]"

subsection \<open>Deep mapped transforms\<close>

text \<open>
  Each is a homomorphic mapped type whose template is the alias itself at \<open>T[P]\<close>:
  \<^item> \<open>DeepPartial<T> = { [P in keyof T]?: DeepPartial<T[P]> }\<close>
  \<^item> \<open>DeepReadonly<T> = { readonly [P in keyof T]: DeepReadonly<T[P]> }\<close>
  \<^item> \<open>DeepRequired<T> = { [P in keyof T]-?: DeepRequired<T[P]> }\<close>
  \<^item> \<open>DeepMutable<T> = { -readonly [P in keyof T]: DeepMutable<T[P]> }\<close>
  \<^item> \<open>DeepWritable<T> = { -readonly [P in keyof T]: DeepWritable<T[P]> }\<close>
  \<^item> \<open>DeepNonNullable<T> = { [P in keyof T]-?: DeepNonNullable<T[P]> }\<close>
  \<^item> \<open>DeepNullable<T> = { [P in keyof T]: DeepNullable<T[P]> | null }\<close>
  \<^item> \<open>DeepMaybe<T> = { [P in keyof T]: DeepMaybe<T[P]> | undefined }\<close>
  \<^item> \<open>DeepVoidable<T> = { [P in keyof T]: DeepVoidable<T[P]> | void }\<close>
  \<^item> \<open>DeepOptionalNullable<T> = { [P in keyof T]?: DeepOptionalNullable<T[P]> | null }\<close>

  The recursion ends because the template is applied to the types of the properties (or
  of the elements) of \<open>T\<close> only, which are smaller than \<open>T\<close>.
\<close>

function DeepPartial :: "ty \<Rightarrow> ty" where
  "DeepPartial T = mapped Same Plus (\<lambda>t. DeepPartial t) T"
  by pat_completeness auto
termination DeepPartial
  by (relation "measure size") auto

declare DeepPartial.simps [simp del]

function DeepReadonly :: "ty \<Rightarrow> ty" where
  "DeepReadonly T = mapped Plus Same (\<lambda>t. DeepReadonly t) T"
  by pat_completeness auto
termination DeepReadonly
  by (relation "measure size") auto

declare DeepReadonly.simps [simp del]

function DeepRequired :: "ty \<Rightarrow> ty" where
  "DeepRequired T = mapped Same Minus (\<lambda>t. DeepRequired t) T"
  by pat_completeness auto
termination DeepRequired
  by (relation "measure size") auto

declare DeepRequired.simps [simp del]

function DeepMutable :: "ty \<Rightarrow> ty" where
  "DeepMutable T = mapped Minus Same (\<lambda>t. DeepMutable t) T"
  by pat_completeness auto
termination DeepMutable
  by (relation "measure size") auto

declare DeepMutable.simps [simp del]



function DeepNonNullable :: "ty \<Rightarrow> ty" where
  "DeepNonNullable T = mapped Same Minus (\<lambda>t. DeepNonNullable t) T"
  by pat_completeness auto
termination DeepNonNullable
  by (relation "measure size") auto

declare DeepNonNullable.simps [simp del]

function DeepNullable :: "ty \<Rightarrow> ty" where
  "DeepNullable T = mapped Same Same (\<lambda>t. mk_union [DeepNullable t, TNull]) T"
  by pat_completeness auto
termination DeepNullable
  by (relation "measure size") auto

declare DeepNullable.simps [simp del]

function DeepMaybe :: "ty \<Rightarrow> ty" where
  "DeepMaybe T = mapped Same Same (\<lambda>t. mk_union [DeepMaybe t, TUndefined]) T"
  by pat_completeness auto
termination DeepMaybe
  by (relation "measure size") auto

declare DeepMaybe.simps [simp del]

function DeepVoidable :: "ty \<Rightarrow> ty" where
  "DeepVoidable T = mapped Same Same (\<lambda>t. mk_union [DeepVoidable t, TVoid]) T"
  by pat_completeness auto
termination DeepVoidable
  by (relation "measure size") auto

declare DeepVoidable.simps [simp del]



text \<open>
  \<open>DeepNonNullableOrUndefined<T> = { [P in keyof T]-?: DeepNonNullableOrUndefined<NonNullable<T[P]>> }\<close>
  and \<open>DeepRequiredNonNullable<T> = { [P in keyof T]-?: DeepRequiredNonNullable<NonNullable<T[P]>> }\<close>
  apply themselves to \<open>NonNullable<T[P]>\<close>. A conditional type that keeps a member or drops it
  is the union of the members kept, which is no larger than the type it comes from.
\<close>

lemma members_not_union: "m \<in> set (members t) \<Longrightarrow> members m = [m]"
  by (induction t rule: members.induct) auto

lemma concat_members_dropped:
  assumes "\<And>m. m \<in> set ms \<Longrightarrow> members m = [m]"
  shows "concat (map members (map (\<lambda>m. if P m then TNever else m) ms))
         = filter (\<lambda>m. \<not> P m) ms"
  using assms by (induction ms) auto

lemma concat_members_atoms:
  assumes "\<And>m. m \<in> set ms \<Longrightarrow> members m = [m]"
  shows "concat (map members ms) = ms"
  using assms by (induction ms) auto

lemma mk_union_cong_members:
  "concat (map members ts) = concat (map members us) \<Longrightarrow> mk_union ts = mk_union us"
  by (simp add: mk_union_def)

lemma distribute_drop:
  "distribute (\<lambda>m. if P m then TNever else m) T = mk_union (filter (\<lambda>m. \<not> P m) (members T))"
proof -
  have a: "\<And>m. m \<in> set (members T) \<Longrightarrow> members m = [m]"
    by (rule members_not_union)
  have b: "\<And>m. m \<in> set (filter (\<lambda>m. \<not> P m) (members T)) \<Longrightarrow> members m = [m]"
    using a by simp
  show ?thesis
    unfolding distribute_def
    by (rule mk_union_cong_members)
      (simp only: concat_members_dropped [OF a] concat_members_atoms [OF b])
qed








lemma size_mk_union_single: "members m = [m] \<Longrightarrow> size (mk_union [m]) \<le> size m"
  by (cases m) (auto simp: mk_union_def)







subsection \<open>NumbersRange\<close>







subsection \<open>UnionToArray\<close>

text \<open>
  \<open>UnionToArray<U> = U extends any ? (u: U) => void : never extends (u: infer I) => void ? I[] : never\<close>.
  A conditional type extends to the right: the second conditional is the false branch of
  the first. The first distributes over \<open>U\<close>. In the second, nothing is inferred for \<open>I\<close>
  from \<open>never\<close>, which leaves \<open>I\<close> as \<open>unknown\<close>.
\<close>

definition UnionToArray :: "ty \<Rightarrow> ty" where
  "UnionToArray U =
     distribute (\<lambda>U. if extends_any U then TFun [U] TVoid
                     else (if extends TNever (TFun [TUnknown] TVoid) then TArray False TUnknown
                           else TNever)) U"

subsection \<open>DeepMerge\<close>

fun is_array :: "ty \<Rightarrow> bool" where
  "is_array (TArray ro t) = True"
| "is_array T = False"

lemma size_index_lt:
  "keyof T = Some kt \<Longrightarrow> K \<in> set kt \<Longrightarrow> size (index T K) < size T"
proof (cases T)
  case (TObj ps)
  assume "keyof T = Some kt" "K \<in> set kt"
  with TObj have "K \<in> fst ` set ps" by auto
  then obtain ro opt t where m: "map_of ps K = Some (ro, opt, t)"
    by (metis domD dom_map_of_conv_image_fst prod_cases3)
  then have "(K, ro, opt, t) \<in> set ps" by (rule map_of_SomeD)
  from size_prop_lt [OF this] m TObj show ?thesis by simp
qed auto

text \<open>
  \<open>{ [K in keyof T | keyof U]: K extends keyof U ? U[K] : K extends keyof T ? (T[K] extends object
  ? (U[K] extends object ? DeepMerge<T[K], U[K]> : T[K]) : T[K]) : never }\<close>. The mapped type
  is over a union of key sets, not over \<open>keyof\<close> of one type, so it keeps no modifier.
  \<open>K extends keyof U\<close> for a key \<open>K\<close> is membership in the keys of \<open>U\<close>. The result is
  \<open>None\<close> where the keys of \<open>T\<close> or \<open>U\<close>, or the types of their properties, are outside
  the model: the latter for an array.
\<close>

function DeepMerge :: "ty \<Rightarrow> ty \<Rightarrow> ty option" where
  "DeepMerge T U =
     (if is_array T \<or> is_array U then None else
      case keyof T of
        None \<Rightarrow> None
      | Some kt \<Rightarrow>
        (case keyof U of
           None \<Rightarrow> None
         | Some ku \<Rightarrow>
             map_option TObj (those (map (\<lambda>K.
                 map_option (\<lambda>t. (K, False, False, t))
                   (if K \<in> set ku then Some (index U K)
                    else if K \<in> set kt then
                      (if extends (index T K) TObject then
                         (if extends (index U K) TObject
                          then DeepMerge (index T K) (index U K)
                          else Some (index T K))
                       else Some (index T K))
                    else Some TNever))
               (remdups (kt @ ku))))))"
  by pat_completeness auto
termination DeepMerge
  by (relation "measure (\<lambda>(T, U). size T)") (auto simp: size_index_lt)

declare DeepMerge.simps [simp del]

section \<open>The declarations of the module and what they refer to\<close>

text \<open>
  The type aliases that \<open>declare module 'types-echo' { ... }\<close> holds, in the order of the
  source. Of each: whether it is written with the \<open>export\<close> keyword, its name, and the
  names of the types that its right-hand side refers to, in the order they stand there
  (type parameters and keywords such as \<open>null\<close>, \<open>number\<close> or \<open>object\<close> are no references).
  \<open>UnionToIntersection\<close> is declared twice, with the same right-hand side.
\<close>

datatype type_decl = TypeAlias (export_keyword: bool) (decl_name: string) (uses: "string list")

definition declarations :: "type_decl list" where
  "declarations =
    [TypeAlias True ''Maybe'' [],
     TypeAlias True ''NonNullable'' [],
     TypeAlias True ''Nullable'' [],
     TypeAlias True ''Undefinedable'' [],
     TypeAlias True ''NullableOrUndefined'' [],
     TypeAlias True ''Voidable'' [],
     TypeAlias True ''ReadonlyRecord'' [],
     TypeAlias True ''ModifyField'' [''Omit'', ''Record''],
     TypeAlias True ''Fn'' [],
     TypeAlias True ''VoidFn'' [''Fn''],
     TypeAlias True ''PromiseFn'' [''Promise''],
     TypeAlias True ''MaybePromise'' [''Promise''],
     TypeAlias True ''MaybePromiseFn'' [''MaybePromise''],
     TypeAlias True ''DeepPartial'' [''DeepPartial''],
     TypeAlias True ''DeepReadonly'' [''DeepReadonly''],
     TypeAlias True ''DeepRequired'' [''DeepRequired''],
     TypeAlias True ''DeepMutable'' [''DeepMutable''],
     TypeAlias True ''DeepWritable'' [''DeepWritable''],
     TypeAlias True ''DeepNonNullable'' [''DeepNonNullable''],
     TypeAlias True ''DeepNullable'' [''DeepNullable''],
     TypeAlias True ''DeepMaybe'' [''DeepMaybe''],
     TypeAlias True ''DeepVoidable'' [''DeepVoidable''],
     TypeAlias True ''NumbersRange'' [''Exclude'', ''_NumbersFrom0ToN'', ''_NumbersFrom0ToN''],
     TypeAlias False ''_NumbersFrom0ToNRec'' [''_NumbersFrom0ToNRec''],
     TypeAlias False ''_NumbersFrom0ToN'' [''_NumbersFrom0ToNRec''],
     TypeAlias True ''DeepNonNullableOrUndefined'' [''DeepNonNullableOrUndefined'', ''NonNullable''],
     TypeAlias True ''UnionToIntersection'' [],
     TypeAlias True ''KeysUnion'' [],
     TypeAlias True ''ConditionalPick'' [],
     TypeAlias True ''UnionToArray'' [],
     TypeAlias True ''DeepOptionalNullable'' [''DeepOptionalNullable''],
     TypeAlias True ''ExcludeFromUnion'' [],
     TypeAlias True ''FirstElement'' [],
     TypeAlias True ''LastElement'' [],
     TypeAlias True ''FunctionProperties'' [''Function''],
     TypeAlias True ''ValueOf'' [],
     TypeAlias True ''DeepRequiredNonNullable'' [''DeepRequiredNonNullable'', ''NonNullable''],
     TypeAlias True ''TupleToUnion'' [],
     TypeAlias True ''OptionalKeys'' [''Pick''],
     TypeAlias True ''RequiredKeys'' [''Pick''],
     TypeAlias True ''NonFunctionProperties'' [''Function''],
     TypeAlias True ''OptionalProperties'' [''Pick'', ''OptionalKeys''],
     TypeAlias True ''RequiredProperties'' [''Pick'', ''RequiredKeys''],
     TypeAlias True ''DeepMerge'' [''DeepMerge''],
     TypeAlias True ''UnionToIntersection'' [],
     TypeAlias True ''Invert'' [],
     TypeAlias True ''PartialWithUndefined'' [],
     TypeAlias True ''MapValues'' [],
     TypeAlias True ''MapKeys'' [],
     TypeAlias True ''UnionToObject'' []]"

text \<open>
  The body of the module holds no export declaration (\<open>export { ... }\<close>, \<open>export * from\<close>) and
  no export assignment (\<open>export =\<close>). In such an ambient module the checker exports every
  declaration, written with \<open>export\<close> or not.
\<close>

definition has_export_declarations :: bool where
  "has_export_declarations = False"

definition exported :: "type_decl \<Rightarrow> bool" where
  "exported d = (export_keyword d \<or> \<not> has_export_declarations)"

text \<open>
  The other declarations of the module that a declaration refers to. A name that the module
  declares is the module's, also when TypeScript has a built-in type of that name
  (\<open>NonNullable\<close>); a name it does not declare (\<open>Omit\<close>, \<open>Record\<close>, \<open>Pick\<close>, \<open>Exclude\<close>,
  \<open>Promise\<close>, \<open>Function\<close>) is TypeScript's.
\<close>

definition others :: "type_decl \<Rightarrow> string list" where
  "others d =
     remdups (filter (\<lambda>r. r \<noteq> decl_name d \<and> r \<in> set (map decl_name declarations)) (uses d))"

text \<open>A declaration is independent when it refers to no other declaration of the module.\<close>

definition independent :: "type_decl \<Rightarrow> bool" where
  "independent d = (others d = [])"

text \<open>It is recursive when it refers to itself.\<close>

definition recursive :: "type_decl \<Rightarrow> bool" where
  "recursive d = (decl_name d \<in> set (uses d))"

section \<open>Predicates and examples\<close>


text \<open>An object type with a nested optional object and an array, for the examples.\<close>

definition person :: ty where
  "person = TObj [(''name'', False, False, TString),
                  (''tags'', False, False, TArray False TString),
                  (''address'', False, True,
                     TUnion [TObj [(''city'', False, False, TString)], TUndefined])]"

text \<open>
  \<open>{ a?: string | undefined }\<close>.
\<close>

definition optional_field :: ty where
  "optional_field = TObj [(''a'', False, True, TUnion [TString, TUndefined])]"

text \<open>
  \<open>{ name?: string | null, xs: (number | undefined)[], u: unknown }\<close>: an optional property
  with \<open>null\<close>, an array of elements that may be \<open>undefined\<close>, and \<open>unknown\<close>.
\<close>

definition profile :: ty where
  "profile = TObj [(''name'', False, True, TUnion [TString, TNull, TUndefined]),
                   (''xs'', False, False, TArray False (TUnion [TNumber, TUndefined])),
                   (''u'', False, False, TUnknown)]"

text \<open>The docstring's example: \<open>DeepMerge<a, b>\<close>.\<close>

definition merge_left :: ty where
  "merge_left = TObj [(''name'', False, False, TString),
                      (''details'', False, False, TObj [(''age'', False, False, TNumber)])]"

definition merge_right :: ty where
  "merge_right = TObj [(''details'', False, False, TObj [(''gender'', False, False, TString)])]"

section \<open>Facts about unions and assignability\<close>

lemma members_no_union: "TUnion ts \<notin> set (members t)"
  by (induction t rule: members.induct) auto

lemma atom_not_union: "members m = [m] \<Longrightarrow> m \<noteq> TUnion ts"
  using members_no_union [of ts m] by auto

lemma atom_not_never: "members m = [m] \<Longrightarrow> m \<noteq> TNever"
  by auto

lemma members_mk_union:
  "members (mk_union ts) =
     (let ms = remdups (concat (map members ts)) in
      if TUnknown \<in> set ms then [TUnknown] else filter (\<lambda>t. \<not> subsumed ms t) ms)"
proof -
  let ?ms = "remdups (concat (map members ts))"
  let ?fs = "filter (\<lambda>t. \<not> subsumed ?ms t) ?ms"
  have mm: "\<And>m. m \<in> set ?fs \<Longrightarrow> members m = [m]"
    using members_not_union by auto
  show ?thesis
  proof (cases "TUnknown \<in> set ?ms")
    case True
    then show ?thesis by (auto simp: mk_union_def Let_def)
  next
    case False
    show ?thesis
    proof (cases ?fs)
      case Nil
      with False show ?thesis by (simp add: mk_union_def Let_def)
    next
      case (Cons a as)
      note c = Cons
      show ?thesis
      proof (cases as)
        case Nil
        with c have "a \<in> set ?fs" by simp
        from mm [OF this] False c Nil
        show ?thesis by (simp add: mk_union_def Let_def)
      next
        case (Cons b bs)
        have "concat (map members ?fs) = ?fs"
          by (rule concat_members_atoms) (rule mm)
        with False c Cons show ?thesis
          by (simp add: mk_union_def Let_def)
      qed
    qed
  qed
qed

lemma members_mk_union_subset:
  "set (members (mk_union ts)) \<subseteq> (\<Union>t\<in>set ts. set (members t))"
proof -
  let ?ms = "remdups (concat (map members ts))"
  let ?fs = "filter (\<lambda>t. \<not> subsumed ?ms t) ?ms"
  have fs: "\<And>m. m \<in> set ?fs \<Longrightarrow> m \<in> (\<Union>t\<in>set ts. set (members t))" by auto
  have mm: "\<And>m. m \<in> set ?fs \<Longrightarrow> members m = [m]"
    using members_not_union by auto
  show ?thesis
  proof (cases "TUnknown \<in> set ?ms")
    case True
    then show ?thesis by (auto simp: mk_union_def Let_def)
  next
    case False
    show ?thesis
    proof (cases ?fs)
      case Nil
      with False show ?thesis by (simp add: mk_union_def Let_def)
    next
      case (Cons a as)
      note c = Cons
      show ?thesis
      proof (cases as)
        case Nil
        with c have "a \<in> set ?fs" by simp
        from mm [OF this] fs [OF this] False c Nil
        show ?thesis by (simp add: mk_union_def Let_def)
      next
        case (Cons b bs)
        have "set (concat (map members ?fs)) \<subseteq> (\<Union>t\<in>set ts. set (members t))"
          using mm fs by (auto; metis list.set_intros(1) list.set(1) empty_iff set_ConsD)
        with False c Cons show ?thesis
          by (simp add: mk_union_def Let_def)
      qed
    qed
  qed
qed


lemma extends_atom_union:
  assumes "members S = [S]"
  shows "extends S (TUnion ts) = list_ex (extends S) ts"
proof -
  have "\<forall>us. S \<noteq> TUnion us" and "S \<noteq> TNever"
    using assms atom_not_union by (blast, auto)
  then show ?thesis by (subst extends.simps) (cases S; simp)
qed

lemma extends_atom_null:
  assumes "members S = [S]"
  shows "extends S TNull \<longleftrightarrow> S = TNull"
proof -
  have "\<forall>us. S \<noteq> TUnion us" and "S \<noteq> TNever"
    using assms atom_not_union by (blast, auto)
  then show ?thesis by (subst extends.simps) (cases S; simp)
qed

lemma extends_atom_undefined:
  assumes "members S = [S]"
  shows "extends S TUndefined \<longleftrightarrow> S = TUndefined"
proof -
  have "\<forall>us. S \<noteq> TUnion us" and "S \<noteq> TNever"
    using assms atom_not_union by (blast, auto)
  then show ?thesis by (subst extends.simps) (cases S; simp)
qed

lemma extends_nullish:
  "members m = [m] \<Longrightarrow>
   extends m (TUnion [TNull, TUndefined]) \<longleftrightarrow> m = TNull \<or> m = TUndefined"
  by (simp add: extends_atom_union extends_atom_null extends_atom_undefined)






lemma unknown_not_object: "\<not> extends TUnknown TObject"
  by (subst extends.simps) simp

lemma those_map_Some: "those (map (\<lambda>x. Some (f x)) xs) = Some (map f xs)"
  by (induction xs) auto


section \<open>DeepReadonly makes every property readonly\<close>










section \<open>Where NumbersRange has a result\<close>









section \<open>DeepMerge on the keys of both types\<close>

lemma index_absent:
  assumes "K \<notin> set (map fst ps)"
  shows "index (TObj ps) K = TUnknown"
proof -
  have "map_of ps K = None" using assms by (simp add: map_of_eq_None_iff)
  then show ?thesis by simp
qed

text \<open>
  For a key of \<open>T\<close> that \<open>U\<close> lacks, \<open>U[K]\<close> is \<open>unknown\<close>, which does not extend
  \<open>object\<close>: the recursive branch is never taken and the merge is one level deep.
\<close>

lemma DeepMerge_shallow:
  "DeepMerge (TObj ps) (TObj qs) =
     Some (TObj (map (\<lambda>K. (K, False, False,
                         if K \<in> set (map fst qs) then index (TObj qs) K else index (TObj ps) K))
                     (remdups (map fst ps @ map fst qs))))"
proof -
  let ?kt = "map fst ps" and ?ku = "map fst qs"
  let ?T = "TObj ps" and ?U = "TObj qs"
  let ?g = "\<lambda>K. map_option (\<lambda>t. (K, False, False, t))
                   (if K \<in> set ?ku then Some (index ?U K)
                    else if K \<in> set ?kt then
                      (if extends (index ?T K) TObject then
                         (if extends (index ?U K) TObject
                          then DeepMerge (index ?T K) (index ?U K)
                          else Some (index ?T K))
                       else Some (index ?T K))
                    else Some TNever)"
  let ?h = "\<lambda>K. (K, False, False, if K \<in> set ?ku then index ?U K else index ?T K)"
  have "map ?g (remdups (?kt @ ?ku)) = map (\<lambda>K. Some (?h K)) (remdups (?kt @ ?ku))"
  proof (rule map_cong [OF refl])
    fix K assume "K \<in> set (remdups (?kt @ ?ku))"
    then have k: "K \<in> set ?kt \<or> K \<in> set ?ku" by auto
    show "?g K = Some (?h K)"
    proof (cases "K \<in> set ?ku")
      case True
      then show ?thesis by simp
    next
      case False
      then have "index ?U K = TUnknown" by (rule index_absent)
      with False k show ?thesis by (simp add: unknown_not_object)
    qed
  qed
  then have "those (map ?g (remdups (?kt @ ?ku))) = Some (map ?h (remdups (?kt @ ?ku)))"
    by (simp only: those_map_Some)
  then show ?thesis
    by (subst DeepMerge.simps) (simp only: is_array.simps keyof.simps option.case option.map simp_thms if_False)
qed

text \<open>
  C3. For object types \<open>T\<close> and \<open>U\<close> and a key \<open>K\<close> of both, \<open>DeepMerge<T, U>\<close> has a result
  and its property \<open>K\<close> has the type \<open>U[K]\<close>: the property of \<open>U\<close> replaces that of \<open>T\<close>
  whole, nothing of \<open>T[K]\<close> is merged in.
\<close>

theorem DeepMerge_overlap:
  assumes "keyof (TObj ps) = Some kt" and "keyof (TObj qs) = Some ku"
    and "K \<in> set kt" and "K \<in> set ku"
  shows "\<exists>R. DeepMerge (TObj ps) (TObj qs) = Some R \<and> index R K = index (TObj qs) K"
proof -
  let ?h = "\<lambda>K. (False, False, if K \<in> set (map fst qs) then index (TObj qs) K else index (TObj ps) K)"
  let ?ks = "remdups (map fst ps @ map fst qs)"
  have ku: "K \<in> set (map fst qs)" and ks: "K \<in> set ?ks"
    using assms by auto
  have "map_of (map (\<lambda>K. (K, ?h K)) ?ks) K = Some (?h K)"
    using ks by (simp add: map_of_map_restrict)
  then have "index (TObj (map (\<lambda>K. (K, ?h K)) ?ks)) K = index (TObj qs) K"
    using ku by simp
  then show ?thesis
    by (subst DeepMerge_shallow) simp
qed

theorem DeepMerge_overlap_witness:
  "DeepMerge merge_left merge_right =
     Some (TObj [(''name'', False, False, TString),
                 (''details'', False, False, TObj [(''gender'', False, False, TString)])])
   \<and> (\<exists>R. DeepMerge merge_left merge_right = Some R
          \<and> index R ''details'' = TObj [(''gender'', False, False, TString)])"
proof -
  have e: "DeepMerge merge_left merge_right =
     Some (TObj [(''name'', False, False, TString),
                 (''details'', False, False, TObj [(''gender'', False, False, TString)])])"
    by code_simp
  have "\<exists>R. DeepMerge merge_left merge_right = Some R
          \<and> index R ''details'' = index merge_right ''details''"
    unfolding merge_left_def merge_right_def
    by (rule DeepMerge_overlap [where kt = "[''name'', ''details'']" and ku = "[''details'']"])
      simp_all
  then show ?thesis using e by (simp add: merge_right_def)
qed

section \<open>UnionToArray gives functions\<close>

text \<open>
  C4. For every type \<open>U\<close>, \<open>UnionToArray<U>\<close> is the union, over the members \<open>u\<close> of \<open>U\<close>, of
  the function types \<open>(u: u) => void\<close>; no member of the result is an array type, the
  \<open>I[]\<close> branch being out of reach.
\<close>

theorem UnionToArray_functions:
  "UnionToArray U = mk_union (map (\<lambda>u. TFun [u] TVoid) (members U))
   \<and> (\<forall>m \<in> set (members (UnionToArray U)). \<exists>u. m = TFun [u] TVoid)"
proof -
  have e: "UnionToArray U = mk_union (map (\<lambda>u. TFun [u] TVoid) (members U))"
    by (simp add: UnionToArray_def distribute_def extends_any_def)
  have "set (members (UnionToArray U)) \<subseteq> (\<Union>t\<in>set (map (\<lambda>u. TFun [u] TVoid) (members U)). set (members t))"
    unfolding e by (rule members_mk_union_subset)
  then have "\<forall>m \<in> set (members (UnionToArray U)). \<exists>u. m = TFun [u] TVoid"
    by auto
  with e show ?thesis by blast
qed

theorem UnionToArray_functions_witness:
  "UnionToArray (TUnion [TStrLit ''a'', TStrLit ''b'', TStrLit ''c''])
     = TUnion [TFun [TStrLit ''a''] TVoid, TFun [TStrLit ''b''] TVoid, TFun [TStrLit ''c''] TVoid]"
  using UnionToArray_functions [of "TUnion [TStrLit ''a'', TStrLit ''b'', TStrLit ''c'']"]
  by (simp add: mk_union_def)

section \<open>NonNullable\<close>

text \<open>
  C7. For every type \<open>T\<close>, \<open>NonNullable<T>\<close> is the union of the members of \<open>T\<close> other than
  \<open>null\<close> and \<open>undefined\<close>: the conditional is applied to each member, \<open>null\<close> and
  \<open>undefined\<close> become \<open>never\<close>, every other member stays as it is.
\<close>

theorem NonNullable_filters_members:
  "NonNullable T = mk_union (filter (\<lambda>m. m \<noteq> TNull \<and> m \<noteq> TUndefined) (members T))"
proof -
  have "NonNullable T =
      mk_union (filter (\<lambda>m. \<not> extends m (TUnion [TNull, TUndefined])) (members T))"
    unfolding NonNullable_def by (rule distribute_drop)
  also have "filter (\<lambda>m. \<not> extends m (TUnion [TNull, TUndefined])) (members T)
      = filter (\<lambda>m. m \<noteq> TNull \<and> m \<noteq> TUndefined) (members T)"
    by (rule filter_cong) (auto simp: extends_nullish members_not_union)
  finally show ?thesis .
qed

theorem NonNullable_filters_members_witness:
  "NonNullable (TUnion [TString, TNull, TUndefined]) = TString"
  using NonNullable_filters_members [of "TUnion [TString, TNull, TUndefined]"]
  by (simp add: mk_union_def)

section \<open>DeepNonNullable and DeepRequired\<close>

lemma nullish_in_mk_union:
  assumes "a = TNull \<or> a = TUndefined \<or> a = TVoid"
    and "\<forall>t\<in>set ts. TUnknown \<notin> set (members t)"
  shows "(a \<in> set (members (mk_union ts)) \<longleftrightarrow> (\<exists>t\<in>set ts. a \<in> set (members t)))
         \<and> TUnknown \<notin> set (members (mk_union ts))"
  using assms by (auto simp: members_mk_union Let_def)

lemma mapped_top_members:
  assumes "a = TNull \<or> a = TUndefined \<or> a = TVoid"
  shows "TUnknown \<notin> set (members (mapped rm om f T))
         \<and> (a \<in> set (members (mapped rm om f T)) \<longleftrightarrow> a \<in> set (members T))"
proof (induction T rule: ty.induct)
  case (TUnion ts)
  have u: "\<forall>t\<in>set (map (mapped rm om f) ts). TUnknown \<notin> set (members t)"
    using TUnion.IH by auto
  have "(\<exists>t\<in>set (map (mapped rm om f) ts). a \<in> set (members t))
      \<longleftrightarrow> (\<exists>t\<in>set ts. a \<in> set (members t))"
    using TUnion.IH by auto
  with nullish_in_mk_union [OF assms u] show ?case by simp
qed (use assms in auto)

lemma strip_undefined_members:
  assumes "TUnknown \<notin> set (members x)"
  shows "TNull \<in> set (members (strip_undefined x)) \<longleftrightarrow> TNull \<in> set (members x)"
    and "TUndefined \<notin> set (members (strip_undefined x))"
proof -
  let ?L = "filter (\<lambda>m. m \<noteq> TUndefined \<and> m \<noteq> TVoid) (members x)"
  have "concat (map members ?L) = ?L"
    by (rule concat_members_atoms) (auto intro: members_not_union)
  then have m: "members (strip_undefined x) =
      filter (\<lambda>t. \<not> subsumed (remdups ?L) t) (remdups ?L)"
    using assms by (simp add: strip_undefined_def members_mk_union Let_def)
  show "TNull \<in> set (members (strip_undefined x)) \<longleftrightarrow> TNull \<in> set (members x)"
    unfolding m by auto
  show "TUndefined \<notin> set (members (strip_undefined x))"
    unfolding m by auto
qed

lemma DeepNonNullable_eq_DeepRequired: "DeepNonNullable T = DeepRequired T"
proof (induction T rule: measure_induct_rule [of size])
  case (less T)
  have "mapped Same Minus (\<lambda>t. DeepNonNullable t) T = mapped Same Minus (\<lambda>t. DeepRequired t) T"
    by (rule mapped_cong) (simp_all add: less.IH)
  then show ?case
    by (subst DeepNonNullable.simps, subst DeepRequired.simps)
qed

lemma property_mapped:
  assumes "distinct (map fst ps)" and "(k, ro, opt, t) \<in> set ps"
  shows "property (mapped rm om f (TObj ps)) k
         = Some (new_flag rm ro, new_flag om opt, prop_type om opt (f t))"
proof -
  let ?g = "\<lambda>(k, ro, opt, t). (k, new_flag rm ro, new_flag om opt, prop_type om opt (f t))"
  have "(k, new_flag rm ro, new_flag om opt, prop_type om opt (f t)) \<in> set (map ?g ps)"
    using assms(2) by force
  moreover have "map fst (map ?g ps) = map fst ps"
    by (simp add: case_prod_unfold comp_def)
  ultimately have "map_of (map ?g ps) k
      = Some (new_flag rm ro, new_flag om opt, prop_type om opt (f t))"
    using assms(1) by (intro map_of_is_SomeI) (simp_all only:)
  then show ?thesis by simp
qed

lemma index_property: "property (TObj ps) k = Some (ro, opt, t) \<Longrightarrow> index (TObj ps) k = t"
  by simp

text \<open>
  C5, as amended. For every type \<open>T\<close>, \<open>DeepNonNullable<T>\<close> is \<open>DeepRequired<T>\<close>. In an object
  type, a property of the result has no \<open>?\<close> and has the \<open>readonly\<close> it had; its type is
  the transform of the property's type \<open>t\<close>, without the members \<open>undefined\<close> and \<open>void\<close> when
  the property was optional. \<open>null\<close> is a member of that type exactly when it is one of
  \<open>t\<close>: it is never removed. \<open>undefined\<close>, as a member of the property's own type, stays on
  a property that was not optional and goes from one that was. Inside the types the
  transform goes on: the elements of an array lose the member \<open>undefined\<close> and keep \<open>null\<close>,
  \<open>unknown\<close> and a function type become \<open>{}\<close>, a union is transformed member by member.
\<close>

theorem DeepNonNullable_is_DeepRequired:
  assumes "distinct (map fst ps)" and "(k, ro, opt, t) \<in> set ps"
  shows "DeepNonNullable T = DeepRequired T
    \<and> property (DeepNonNullable (TObj ps)) k
        = Some (ro, False, if opt then strip_undefined (DeepNonNullable t) else DeepNonNullable t)
    \<and> (TNull \<in> set (members (index (DeepNonNullable (TObj ps)) k))
         \<longleftrightarrow> TNull \<in> set (members t))
    \<and> (if opt then TUndefined \<notin> set (members (index (DeepNonNullable (TObj ps)) k))
        else (TUndefined \<in> set (members (index (DeepNonNullable (TObj ps)) k))
               \<longleftrightarrow> TUndefined \<in> set (members t)))
    \<and> DeepNonNullable (TArray aro e) = TArray aro (strip_undefined (DeepNonNullable e))
    \<and> TUndefined \<notin> set (members (strip_undefined (DeepNonNullable e)))
    \<and> (TNull \<in> set (members (strip_undefined (DeepNonNullable e)))
         \<longleftrightarrow> TNull \<in> set (members e))
    \<and> DeepNonNullable TUnknown = TObj []
    \<and> DeepNonNullable (TFun fs r) = TObj []
    \<and> DeepNonNullable (TUnion ts) = mk_union (map DeepNonNullable ts)"
proof -
  have top: "TUnknown \<notin> set (members (DeepNonNullable x))
      \<and> (TNull \<in> set (members (DeepNonNullable x)) \<longleftrightarrow> TNull \<in> set (members x))
      \<and> (TUndefined \<in> set (members (DeepNonNullable x)) \<longleftrightarrow> TUndefined \<in> set (members x))"
    for x
    using mapped_top_members [of TNull Same Minus "\<lambda>t. DeepNonNullable t" x]
      mapped_top_members [of TUndefined Same Minus "\<lambda>t. DeepNonNullable t" x]
    by (subst (1 2 3) DeepNonNullable.simps) simp
  let ?t' = "if opt then strip_undefined (DeepNonNullable t) else DeepNonNullable t"
  have "property (mapped Same Minus (\<lambda>t. DeepNonNullable t) (TObj ps)) k
      = Some (new_flag Same ro, new_flag Minus opt, prop_type Minus opt (DeepNonNullable t))"
    by (rule property_mapped [OF assms])
  then have p: "property (DeepNonNullable (TObj ps)) k = Some (ro, False, ?t')"
    by (subst DeepNonNullable.simps) (simp add: prop_type_def)
  then have i: "index (DeepNonNullable (TObj ps)) k = ?t'"
    by (subst (asm) DeepNonNullable.simps, subst DeepNonNullable.simps) simp
  have st: "TNull \<in> set (members (strip_undefined (DeepNonNullable x)))
        \<longleftrightarrow> TNull \<in> set (members x)"
    and su: "TUndefined \<notin> set (members (strip_undefined (DeepNonNullable x)))" for x
    using strip_undefined_members [of "DeepNonNullable x"] top [of x] by simp_all
  have n: "TNull \<in> set (members (index (DeepNonNullable (TObj ps)) k))
      \<longleftrightarrow> TNull \<in> set (members t)"
    unfolding i using st [of t] top [of t] by simp
  have u: "if opt then TUndefined \<notin> set (members (index (DeepNonNullable (TObj ps)) k))
        else (TUndefined \<in> set (members (index (DeepNonNullable (TObj ps)) k))
               \<longleftrightarrow> TUndefined \<in> set (members t))"
    unfolding i using su [of t] top [of t] by simp
  have a: "DeepNonNullable (TArray aro e) = TArray aro (strip_undefined (DeepNonNullable e))"
    by (subst DeepNonNullable.simps) simp
  have k: "DeepNonNullable TUnknown = TObj []"
    by (subst DeepNonNullable.simps) simp
  have f: "DeepNonNullable (TFun fs r) = TObj []"
    by (subst DeepNonNullable.simps) simp
  have un: "DeepNonNullable (TUnion ts) = mk_union (map DeepNonNullable ts)"
  proof -
    have h: "map (mapped Same Minus DeepNonNullable) ts = map DeepNonNullable ts"
      by (rule map_cong [OF refl]) (rule DeepNonNullable.simps [symmetric])
    have "mapped Same Minus DeepNonNullable (TUnion ts) = mk_union (map DeepNonNullable ts)"
      by (simp only: mapped.simps h)
    then show ?thesis by (subst DeepNonNullable.simps)
  qed
  from DeepNonNullable_eq_DeepRequired [of T] p n u a su [of e] st [of e] k f un
  show ?thesis by blast
qed

theorem DeepNonNullable_is_DeepRequired_witness:
  "DeepNonNullable profile =
     TObj [(''name'', False, False, TUnion [TString, TNull]),
           (''xs'', False, False, TArray False TNumber),
           (''u'', False, False, TObj [])]
   \<and> DeepNonNullable profile = DeepRequired profile
   \<and> property (DeepNonNullable profile) ''name'' = Some (False, False, TUnion [TString, TNull])
   \<and> TNull \<in> set (members (index (DeepNonNullable profile) ''name''))
   \<and> TUndefined \<notin> set (members (index (DeepNonNullable profile) ''name''))"
proof -
  let ?ps = "[(''name'', False, True, TUnion [TString, TNull, TUndefined]),
              (''xs'', False, False, TArray False (TUnion [TNumber, TUndefined])),
              (''u'', False, False, TUnknown)]"
  have a: "distinct (map fst ?ps)" by simp
  have b: "(''name'', False, True, TUnion [TString, TNull, TUndefined]) \<in> set ?ps" by simp
  have c: "DeepNonNullable profile =
     TObj [(''name'', False, False, TUnion [TString, TNull]),
           (''xs'', False, False, TArray False TNumber),
           (''u'', False, False, TObj [])]"
    by code_simp
  have d: "property (DeepNonNullable profile) ''name'' = Some (False, False, TUnion [TString, TNull])"
    unfolding c by simp
  have m: "TNull \<in> set (members (TUnion [TString, TNull, TUndefined]))" by simp
  from m DeepNonNullable_is_DeepRequired
    [OF a b, where T = "TObj ?ps" and aro = False and e = TString and fs = "[]" and r = TVoid
      and ts = "[]"]
  have "DeepNonNullable profile = DeepRequired profile
    \<and> TNull \<in> set (members (index (DeepNonNullable profile) ''name''))
    \<and> TUndefined \<notin> set (members (index (DeepNonNullable profile) ''name''))"
    unfolding profile_def if_True by blast
  with c d show ?thesis by blast
qed

text \<open>
  C5 as first stated fails: \<open>DeepNonNullable<{ a?: string | undefined }>\<close> is
  \<open>{ a: string }\<close>, the \<open>undefined\<close> written in the property's type is gone.
\<close>

theorem DeepNonNullable_removes_undefined:
  "TUndefined \<in> set (members (index optional_field ''a''))
   \<and> TUndefined \<notin> set (members (index (DeepNonNullable optional_field) ''a''))
   \<and> DeepNonNullable optional_field = TObj [(''a'', False, False, TString)]"
proof -
  have "DeepNonNullable optional_field = TObj [(''a'', False, False, TString)]"
    by code_simp
  then show ?thesis by (simp add: optional_field_def)
qed

section \<open>Which aliases stand alone\<close>

text \<open>
  C6, as amended. Every declaration of the module is exported, fifty in all. Eight of them
  refer to another declaration of the module, listed here with what each refers to; the
  other forty-two refer to none, and twelve of these refer to themselves.
\<close>

theorem dependent_exports:
  "map (\<lambda>d. (decl_name d, others d)) (filter (\<lambda>d. exported d \<and> \<not> independent d) declarations)
   = [(''VoidFn'', [''Fn'']),
      (''MaybePromiseFn'', [''MaybePromise'']),
      (''NumbersRange'', [''_NumbersFrom0ToN'']),
      (''_NumbersFrom0ToN'', [''_NumbersFrom0ToNRec'']),
      (''DeepNonNullableOrUndefined'', [''NonNullable'']),
      (''DeepRequiredNonNullable'', [''NonNullable'']),
      (''OptionalProperties'', [''OptionalKeys'']),
      (''RequiredProperties'', [''RequiredKeys''])]
   \<and> map decl_name (filter (\<lambda>d. exported d \<and> independent d \<and> recursive d) declarations)
   = [''DeepPartial'', ''DeepReadonly'', ''DeepRequired'', ''DeepMutable'', ''DeepWritable'',
      ''DeepNonNullable'', ''DeepNullable'', ''DeepMaybe'', ''DeepVoidable'',
      ''_NumbersFrom0ToNRec'', ''DeepOptionalNullable'', ''DeepMerge'']
   \<and> length (filter exported declarations) = 50
   \<and> length (filter (\<lambda>d. exported d \<and> independent d) declarations) = 42"
  by code_simp

text \<open>
  C6 as first stated fails: \<open>VoidFn<T> = Fn<T, void>\<close> is exported and is defined by
  \<open>Fn\<close>, another alias of the module.
\<close>

theorem VoidFn_uses_Fn:
  "TypeAlias True ''VoidFn'' [''Fn''] \<in> set declarations
   \<and> exported (TypeAlias True ''VoidFn'' [''Fn''])
   \<and> others (TypeAlias True ''VoidFn'' [''Fn'']) = [''Fn'']
   \<and> \<not> independent (TypeAlias True ''VoidFn'' [''Fn''])
   \<and> \<not> list_all (\<lambda>d. \<not> exported d \<or> independent d) declarations"
  by code_simp

section \<open>The keys after a deep transform\<close>

lemma extends_atom_object:
  assumes "members S = [S]"
  shows "extends S TObject
         \<longleftrightarrow> S = TObject \<or> (\<exists>fs r. S = TFun fs r) \<or> (\<exists>ro t. S = TArray ro t) \<or> (\<exists>ps. S = TObj ps)"
proof -
  have "\<forall>us. S \<noteq> TUnion us" and "S \<noteq> TNever"
    using assms atom_not_union by (blast, auto)
  then show ?thesis by (subst extends.simps) (cases S; simp)
qed

lemma keyof_mapped:
  assumes "extends T TObject" and "members T = [T]" and "\<not> is_array T"
  shows "keyof (mapped rm om f T) = keyof T"
proof -
  have "T = TObject \<or> (\<exists>fs r. T = TFun fs r) \<or> (\<exists>ro t. T = TArray ro t) \<or> (\<exists>ps. T = TObj ps)"
    using assms(1) by (rule extends_atom_object [OF assms(2), THEN iffD1])
  then show ?thesis
  proof (elim disjE exE)
    assume "T = TObject"
    then show ?thesis by simp
  next
    fix fs r assume "T = TFun fs r"
    then show ?thesis by simp
  next
    fix ro t assume "T = TArray ro t"
    with assms(3) show ?thesis by simp
  next
    fix ps assume "T = TObj ps"
    then show ?thesis by (simp add: case_prod_unfold comp_def)
  qed
qed

lemma keyof_mapped_array:
  "keyof (mapped rm om f (TArray ro t))
   = Some (if new_flag rm ro then readonly_array_keys else array_keys)"
  by simp

lemma is_array_cases: "is_array T \<Longrightarrow> \<exists>ro t. T = TArray ro t"
  by (cases T) simp_all

text \<open>
  C8, as amended. Let \<open>T\<close> be an object type: a type that extends \<open>object\<close> and is no union.
  \<open>DeepPartial\<close>, \<open>DeepRequired\<close>, \<open>DeepNullable\<close>, \<open>DeepMaybe\<close> and \<open>DeepVoidable\<close> give a
  type with the keys of \<open>T\<close>. So do \<open>DeepReadonly\<close> and \<open>DeepMutable\<close> when \<open>T\<close> is no array;
  of an array, \<open>DeepReadonly\<close> makes a \<open>readonly\<close> array, with the keys of
  \<open>ReadonlyArray\<close>, and \<open>DeepMutable\<close> an array that is not \<open>readonly\<close>, with the keys of
  \<open>Array\<close>.
\<close>

theorem deep_transforms_keys:
  assumes "extends T TObject" and "members T = [T]"
  shows "keyof (DeepPartial T) = keyof T
   \<and> keyof (DeepRequired T) = keyof T
   \<and> keyof (DeepNullable T) = keyof T
   \<and> keyof (DeepMaybe T) = keyof T
   \<and> keyof (DeepVoidable T) = keyof T
   \<and> keyof (DeepReadonly T) = (if is_array T then Some readonly_array_keys else keyof T)
   \<and> keyof (DeepMutable T) = (if is_array T then Some array_keys else keyof T)"
proof (cases "is_array T")
  case False
  note k = keyof_mapped [OF assms False]
  have "keyof (DeepPartial T) = keyof T"
    by (subst DeepPartial.simps) (rule k)
  moreover have "keyof (DeepRequired T) = keyof T"
    by (subst DeepRequired.simps) (rule k)
  moreover have "keyof (DeepNullable T) = keyof T"
    by (subst DeepNullable.simps) (rule k)
  moreover have "keyof (DeepMaybe T) = keyof T"
    by (subst DeepMaybe.simps) (rule k)
  moreover have "keyof (DeepVoidable T) = keyof T"
    by (subst DeepVoidable.simps) (rule k)
  moreover have "keyof (DeepReadonly T) = keyof T"
    by (subst DeepReadonly.simps) (rule k)
  moreover have "keyof (DeepMutable T) = keyof T"
    by (subst DeepMutable.simps) (rule k)
  ultimately show ?thesis using False by simp
next
  case True
  then obtain ro t where T: "T = TArray ro t"
    using is_array_cases by blast
  have "keyof (DeepPartial T) = keyof T"
    unfolding T by (subst DeepPartial.simps) (simp only: keyof_mapped_array keyof.simps new_flag.simps)
  moreover have "keyof (DeepRequired T) = keyof T"
    unfolding T by (subst DeepRequired.simps) (simp only: keyof_mapped_array keyof.simps new_flag.simps)
  moreover have "keyof (DeepNullable T) = keyof T"
    unfolding T by (subst DeepNullable.simps) (simp only: keyof_mapped_array keyof.simps new_flag.simps)
  moreover have "keyof (DeepMaybe T) = keyof T"
    unfolding T by (subst DeepMaybe.simps) (simp only: keyof_mapped_array keyof.simps new_flag.simps)
  moreover have "keyof (DeepVoidable T) = keyof T"
    unfolding T by (subst DeepVoidable.simps) (simp only: keyof_mapped_array keyof.simps new_flag.simps)
  moreover have "keyof (DeepReadonly T) = Some readonly_array_keys"
    unfolding T by (subst DeepReadonly.simps) (simp only: keyof_mapped_array new_flag.simps if_True)
  moreover have "keyof (DeepMutable T) = Some array_keys"
    unfolding T by (subst DeepMutable.simps) (simp only: keyof_mapped_array new_flag.simps if_False)
  ultimately show ?thesis using True by simp
qed

theorem deep_transforms_keys_witness:
  "extends person TObject \<and> members person = [person]
   \<and> keyof person = Some [''name'', ''tags'', ''address'']
   \<and> keyof (DeepPartial person) = keyof person
   \<and> keyof (DeepRequired person) = keyof person
   \<and> keyof (DeepNullable person) = keyof person
   \<and> keyof (DeepMaybe person) = keyof person
   \<and> keyof (DeepVoidable person) = keyof person
   \<and> keyof (DeepReadonly person) = keyof person
   \<and> keyof (DeepMutable person) = keyof person"
proof -
  have b: "members person = [person]"
    by (simp add: person_def)
  have a: "extends person TObject"
    unfolding person_def by (subst extends.simps) simp
  have "\<not> is_array person" and "keyof person = Some [''name'', ''tags'', ''address'']"
    by (simp_all add: person_def)
  with deep_transforms_keys [OF a b] a b show ?thesis by simp
qed

text \<open>
  C8 as first stated fails: \<open>string[]\<close> is an object type, \<open>DeepReadonly<string[]>\<close> is
  \<open>readonly string[]\<close>, and \<open>push\<close> is a key of the first and not of the second.
\<close>

theorem DeepReadonly_array_loses_keys:
  "extends (TArray False TString) TObject
   \<and> DeepReadonly (TArray False TString) = TArray True TString
   \<and> keyof (DeepReadonly (TArray False TString)) \<noteq> keyof (TArray False TString)
   \<and> keyof (TArray False TString) = Some array_keys
   \<and> keyof (DeepReadonly (TArray False TString)) = Some readonly_array_keys
   \<and> ''push'' \<in> set array_keys \<and> ''push'' \<notin> set readonly_array_keys"
proof -
  have a: "extends (TArray False TString) TObject"
    by (subst extends.simps) simp
  have d: "DeepReadonly (TArray False TString) = TArray True TString"
    by code_simp
  have p: "''push'' \<in> set array_keys" by code_simp
  have q: "''push'' \<notin> set readonly_array_keys" by code_simp
  from p q have n: "array_keys \<noteq> readonly_array_keys" "readonly_array_keys \<noteq> array_keys"
    by auto
  have k: "keyof (TArray False TString) = Some array_keys"
    and r: "keyof (TArray True TString) = Some readonly_array_keys"
    by simp_all
  from a d p q n k r show ?thesis by (simp only: option.inject simp_thms)
qed

end
